theory Spec2Isabelle
  imports Main "HOL-Library.Word"
begin

section \<open>The model library, as the compiler reads it\<close>

text \<open>
  \<^verbatim>\<open>Compiler.cpp\<close> reads nodes and ports of the model library through accessors only:
  \<^verbatim>\<open>Port::GetType\<close>, \<^verbatim>\<open>Node::GetInputPorts\<close>, \<^verbatim>\<open>Node::GetOutputPorts\<close>,
  \<^verbatim>\<open>Node::GetDependentNodes\<close>, \<^verbatim>\<open>Node::GetRuntimeTypeName\<close>, the dynamic type
  \<^verbatim>\<open>typeid(node)\<close> and \<^verbatim>\<open>Model::Visit\<close>. A node is the record of what these
  accessors return. The enumeration \<^verbatim>\<open>Port::PortType\<close> is declared in the model library;
  the compiler only compares its values, so it is the type parameter \<open>'t\<close>.
  The model is read-only during compilation, so a \<^verbatim>\<open>const Node*\<close> is represented by
  the node it points at.
\<close>

datatype 't Port = Port (GetType: 't)

text \<open>
  The dynamic class of a node, as \<^verbatim>\<open>typeid\<close> observes it. The compiler names two
  classes, \<^verbatim>\<open>model::InputNode<double>\<close> and \<^verbatim>\<open>model::InputNode<int>\<close>; every other
  class is told apart by its name.
\<close>

datatype NodeClass = InputNode_double | InputNode_int | OtherNodeClass string

record 't Node =
  typeid :: NodeClass
  GetRuntimeTypeName :: string
  GetInputPorts :: "'t Port list"
  GetOutputPorts :: "'t Port list"
  GetDependentNodes :: "nat list"

text \<open>
  \<^verbatim>\<open>GetDependentNodes\<close> returns a vector of node pointers; a pointer is an address here
  (only the size of the vector is read).

  \<^verbatim>\<open>Model::Visit\<close> is declared in the model library. It calls the visitor once on
  every node of the model, in dependency order; a model is represented by that sequence, and
  \<open>Visit\<close> threads the state the visitor's captures hold through the calls.
\<close>

datatype 't Model = Model (visitSequence: "'t Node list")

definition Visit :: "'t Model \<Rightarrow> ('t Node \<Rightarrow> 's \<Rightarrow> 's) \<Rightarrow> 's \<Rightarrow> 's" where
  "Visit model visitor s = fold visitor (visitSequence model) s"

section \<open>ModelEx: graph analysis\<close>

text \<open>\<^verbatim>\<open>operator[]\<close> of \<^verbatim>\<open>std::vector\<close>: an index past the end is undefined behaviour
  in C++, \<open>None\<close> here.\<close>

definition vector_at :: "'a list \<Rightarrow> nat \<Rightarrow> 'a option" where
  "vector_at v i = (if i < length v then Some (v ! i) else None)"

definition GetNodeDataType :: "'t Node \<Rightarrow> 't option" where
  "GetNodeDataType node = map_option GetType (vector_at (GetOutputPorts node) 0)"

definition IsLeafNode :: "'t Node \<Rightarrow> bool" where
  "IsLeafNode node = (length (GetDependentNodes node) = 0)"

text \<open>The visitor of \<^verbatim>\<open>CollectNodes\<close>: \<^verbatim>\<open>matches.push_back(&node)\<close> when the predicate
  holds.\<close>

definition CollectNodes :: "'t Model \<Rightarrow> ('t Node \<Rightarrow> bool) \<Rightarrow> 't Node list" where
  "CollectNodes model predicate =
     Visit model (\<lambda>node matches. if predicate node then matches @ [node] else matches) []"

text \<open>\<^verbatim>\<open>CollectOutputNodes\<close> declares a local \<^verbatim>\<open>findNodes\<close> that it never uses; the
  predicate it passes is \<^verbatim>\<open>IsLeafNode\<close>.\<close>

definition CollectOutputNodes :: "'t Model \<Rightarrow> 't Node list" where
  "CollectOutputNodes model = CollectNodes model (\<lambda>node. IsLeafNode node)"

definition findNodes :: "'t Node \<Rightarrow> bool" where
  "findNodes node = (typeid node = InputNode_double \<or> typeid node = InputNode_int)"

definition CollectInputNodes :: "'t Model \<Rightarrow> 't Node list" where
  "CollectInputNodes model = CollectNodes model findNodes"

fun CountOutputs :: "'t Node list \<Rightarrow> nat" where
  "CountOutputs [] = 0"
| "CountOutputs (n # nodes) = length (GetOutputPorts n) + CountOutputs nodes"

fun CountInputs :: "'t Node list \<Rightarrow> nat" where
  "CountInputs [] = 0"
| "CountInputs (n # nodes) = length (GetInputPorts n) + CountInputs nodes"

section \<open>Compiler: the driver\<close>

text \<open>
  The enumerators below are the ones \<^verbatim>\<open>Compiler.cpp\<close> names; the enumerations are
  declared in headers. \<^verbatim>\<open>DataNodeType\<close> has the enumerator \<^verbatim>\<open>Literal\<close> and others the
  file does not name; \<^verbatim>\<open>CompileNode\<close> sends every one of them to its
  \<^verbatim>\<open>default\<close> branch. \<^verbatim>\<open>NodeType::constant\<close> is written \<open>constant'\<close>.
\<close>

datatype CompilerError = notSupported | inputPortTypeNotSupported | outputPortTypeNotSupported

datatype NodeType = input | constant' | binaryOp

datatype DataNodeType = Literal | OtherDataNodeType nat

record DataNode =
  Type :: DataNodeType

text \<open>
  \<^verbatim>\<open>BeginMain\<close>, \<^verbatim>\<open>EndMain\<close> and \<^verbatim>\<open>Compile(LiteralNode&)\<close> are virtual functions
  that a code generator deriving from \<^verbatim>\<open>Compiler\<close> implements. The base class only
  calls them; the driver's state keeps the sequence of these calls, in call order.
\<close>

datatype HookCall = Call_BeginMain string | Call_EndMain | Call_Compile_Literal DataNode

text \<open>
  The fields of \<^verbatim>\<open>Compiler\<close> that the file reads or writes: \<^verbatim>\<open>_nodeTypes\<close>,
  \<^verbatim>\<open>_globalVars\<close> (a \<^verbatim>\<open>uint64_t\<close>), \<^verbatim>\<open>_inputs\<close>, \<^verbatim>\<open>_outputs\<close>, and the calls made
  to the virtual functions. \<^verbatim>\<open>_tempVars\<close> is left out: \<^verbatim>\<open>AllocTemp\<close> and
  \<^verbatim>\<open>FreeTemp\<close> only forward to an allocator class declared elsewhere.
  The registry \<^verbatim>\<open>_nodeTypes\<close> is kept as the ordered pairs it was initialised with.
\<close>

record 't Compiler =
  nodeTypes :: "(string \<times> NodeType) list"
  globalVars :: "64 word"
  inputs :: "'t Node list"
  outputs :: "'t Node list"
  hookCalls :: "HookCall list"

definition c_InputVariableName :: string where
  "c_InputVariableName = ''input''"

definition c_OutputVariableName :: string where
  "c_OutputVariableName = ''output''"

definition c_PredictFunctionName :: string where
  "c_PredictFunctionName = ''Predict''"

definition InputName :: "'t Compiler \<Rightarrow> string" where
  "InputName c = c_InputVariableName"

definition OutputName :: "'t Compiler \<Rightarrow> string" where
  "OutputName c = c_OutputVariableName"

text \<open>
  Modelled from the spec: the class of \<^verbatim>\<open>_nodeTypes\<close>, with its \<^verbatim>\<open>Init\<close> and
  \<^verbatim>\<open>Get\<close>, is declared in a header that is not part of the sources. The specification
  says of it: \<open>init\<close> replaces the registry contents with an ordered sequence of
  (kind identifier, node kind) pairs, and \<open>lookup\<close> returns the kind registered for an
  identifier and fails with \<open>UnsupportedNodeKind\<close> when the identifier is unknown.
  \<open>UnsupportedNodeKind\<close> is the error \<^verbatim>\<open>CompilerError::notSupported\<close> of the code.
\<close>

definition Init :: "(string \<times> 'v) list \<Rightarrow> (string \<times> 'v) list \<Rightarrow> (string \<times> 'v) list" where
  "Init registry pairs = pairs"

definition Get :: "(string \<times> 'v) list \<Rightarrow> string \<Rightarrow> CompilerError + 'v" where
  "Get registry kindId =
     (case map_of registry kindId of None \<Rightarrow> Inl notSupported | Some kind \<Rightarrow> Inr kind)"

definition InitSupportedNodeTypes :: "'t Compiler \<Rightarrow> 't Compiler" where
  "InitSupportedNodeTypes c =
     c\<lparr>nodeTypes := Init (nodeTypes c)
        [(''Input'', input), (''ConstantNode'', constant'), (''BinaryOperationNode'', binaryOp)]\<rparr>"

text \<open>
  The constructor: \<^verbatim>\<open>_nodeTypes()\<close>, then \<^verbatim>\<open>InitSupportedNodeTypes()\<close>.
  Modelled from the spec: the initial value of \<^verbatim>\<open>_globalVars\<close> is given in the class
  declaration, which is not part of the sources; the specification has the first
  persistent identifier be 1, so the counter starts at 0. The vectors start empty.
\<close>

definition new_Compiler :: "'t Compiler" where
  "new_Compiler =
     InitSupportedNodeTypes
       \<lparr>nodeTypes = [], globalVars = 0, inputs = [], outputs = [], hookCalls = []\<rparr>"

definition AllocGlobal :: "'t Compiler \<Rightarrow> 64 word \<times> 't Compiler" where
  "AllocGlobal c = (let c' = c\<lparr>globalVars := globalVars c + 1\<rparr> in (globalVars c', c'))"

text \<open>\<open>n\<close> calls of \<^verbatim>\<open>AllocGlobal\<close> in a row on one instance: the values returned, in
  call order, and the instance afterwards.\<close>

fun AllocGlobal_times :: "nat \<Rightarrow> 't Compiler \<Rightarrow> 64 word list \<times> 't Compiler" where
  "AllocGlobal_times 0 c = ([], c)"
| "AllocGlobal_times (Suc n) c =
     (case AllocGlobal c of (v, c') \<Rightarrow>
        (case AllocGlobal_times n c' of (vs, c'') \<Rightarrow> (v # vs, c'')))"

definition BeginMain :: "string \<Rightarrow> 't Compiler \<Rightarrow> 't Compiler" where
  "BeginMain functionName c = c\<lparr>hookCalls := hookCalls c @ [Call_BeginMain functionName]\<rparr>"

definition EndMain :: "'t Compiler \<Rightarrow> 't Compiler" where
  "EndMain c = c\<lparr>hookCalls := hookCalls c @ [Call_EndMain]\<rparr>"

definition Compile_Literal :: "DataNode \<Rightarrow> 't Compiler \<Rightarrow> 't Compiler" where
  "Compile_Literal node c = c\<lparr>hookCalls := hookCalls c @ [Call_Compile_Literal node]\<rparr>"

text \<open>
  A member function that can throw returns the error (\<open>Inl\<close>) or its result, and the
  instance as the call leaves it: an exception leaves the object as it was when thrown.
\<close>

definition CompileModel :: "'t Model \<Rightarrow> 't Compiler \<Rightarrow> (CompilerError + unit) \<times> 't Compiler" where
  "CompileModel model c =
     (let c1 = c\<lparr>inputs := CollectInputNodes model\<rparr>;
          c2 = c1\<lparr>outputs := CollectOutputNodes model\<rparr>;
          c3 = BeginMain c_PredictFunctionName c2;
          c4 = EndMain c3
      in (Inr (), c4))"

definition CompileNode :: "DataNode \<Rightarrow> 't Compiler \<Rightarrow> (CompilerError + unit) \<times> 't Compiler" where
  "CompileNode node c =
     (let c1 = BeginMain c_PredictFunctionName c in
      case Type node of
        Literal \<Rightarrow> (let c2 = Compile_Literal node c1; c3 = EndMain c2 in (Inr (), c3))
      | _ \<Rightarrow> (Inl notSupported, c1))"

definition GetNodeType :: "'t Compiler \<Rightarrow> 't Node \<Rightarrow> CompilerError + NodeType" where
  "GetNodeType c node = Get (nodeTypes c) (GetRuntimeTypeName node)"

fun VerifyInputType_loop :: "'t Port list \<Rightarrow> 't \<Rightarrow> CompilerError + unit" where
  "VerifyInputType_loop [] ty = Inr ()"
| "VerifyInputType_loop (port # rest) ty =
     (if GetType port \<noteq> ty then Inl inputPortTypeNotSupported
      else VerifyInputType_loop rest ty)"

definition VerifyInputType :: "'t Node \<Rightarrow> 't \<Rightarrow> CompilerError + unit" where
  "VerifyInputType node ty = (let inputs = GetInputPorts node in VerifyInputType_loop inputs ty)"

fun VerifyOutputType_loop :: "'t Port list \<Rightarrow> 't \<Rightarrow> CompilerError + unit" where
  "VerifyOutputType_loop [] ty = Inr ()"
| "VerifyOutputType_loop (port # rest) ty =
     (if GetType port \<noteq> ty then Inl outputPortTypeNotSupported
      else VerifyOutputType_loop rest ty)"

definition VerifyOutputType :: "'t Node \<Rightarrow> 't \<Rightarrow> CompilerError + unit" where
  "VerifyOutputType node ty =
     (let outputs = GetOutputPorts node in VerifyOutputType_loop outputs ty)"

definition Reset :: "'t Compiler \<Rightarrow> 't Compiler" where
  "Reset c = c"

section \<open>Sessions\<close>

text \<open>
  Modelled from the spec: \<^verbatim>\<open>BeginMain\<close> and \<^verbatim>\<open>EndMain\<close> have no definition in the
  sources. The specification describes them as the points that open and close the
  compilation session: the driver is a state machine
  \<open>Idle \<rightarrow> (BeginSession) \<rightarrow> InSession \<rightarrow> (per-node lowering)* \<rightarrow> (EndSession) \<rightarrow> Idle\<close>,
  with a named session. The session state of a driver is read off the calls it has made.
\<close>

datatype Session = Idle | InSession string

fun sessionStep :: "Session \<Rightarrow> HookCall \<Rightarrow> Session" where
  "sessionStep s (Call_BeginMain functionName) = InSession functionName"
| "sessionStep s Call_EndMain = Idle"
| "sessionStep s (Call_Compile_Literal node) = s"

definition session :: "'t Compiler \<Rightarrow> Session" where
  "session c = foldl sessionStep Idle (hookCalls c)"

section \<open>Example models\<close>

text \<open>
  The scenario of the specification: node A (kind \<open>Input\<close>, one output port) and node B
  (kind \<open>ConstantNode\<close>, one output port) feed node C (kind \<open>BinaryOperationNode\<close>, two
  input ports, one output port, no dependents). Port types are numbered; C is at
  address 2.
\<close>

definition nodeA :: "nat Node" where
  "nodeA = \<lparr>typeid = InputNode_double, GetRuntimeTypeName = ''Input'',
            GetInputPorts = [], GetOutputPorts = [Port 0], GetDependentNodes = [2]\<rparr>"

definition nodeB :: "nat Node" where
  "nodeB = \<lparr>typeid = OtherNodeClass ''ConstantNode<double>'',
            GetRuntimeTypeName = ''ConstantNode'',
            GetInputPorts = [], GetOutputPorts = [Port 0], GetDependentNodes = [2]\<rparr>"

definition nodeC :: "nat Node" where
  "nodeC = \<lparr>typeid = OtherNodeClass ''BinaryOperationNode<double>'',
            GetRuntimeTypeName = ''BinaryOperationNode'',
            GetInputPorts = [Port 0, Port 0], GetOutputPorts = [Port 0],
            GetDependentNodes = []\<rparr>"

definition scenario :: "nat Model" where
  "scenario = Model [nodeA, nodeB, nodeC]"

text \<open>
  Two nodes on which the dynamic class and the reported kind identifier disagree about
  being an input: the first is an \<^verbatim>\<open>InputNode<int>\<close> whose type name is not a key of the
  registry, the second reports the registered identifier \<open>Input\<close> and is of another
  class.
\<close>

definition typedInputNode :: "nat Node" where
  "typedInputNode = \<lparr>typeid = InputNode_int, GetRuntimeTypeName = ''InputNode<int>'',
      GetInputPorts = [], GetOutputPorts = [Port 1], GetDependentNodes = []\<rparr>"

definition namedInputNode :: "nat Node" where
  "namedInputNode = \<lparr>typeid = OtherNodeClass ''SourceNode'', GetRuntimeTypeName = ''Input'',
      GetInputPorts = [], GetOutputPorts = [Port 1], GetDependentNodes = []\<rparr>"

definition twoSources :: "nat Model" where
  "twoSources = Model [typedInputNode, namedInputNode]"

text \<open>A node with input ports of three different types, no output port, and a kind
  identifier that is not registered.\<close>

definition mixedNode :: "nat Node" where
  "mixedNode = \<lparr>typeid = OtherNodeClass ''MixedNode'', GetRuntimeTypeName = ''UnregisteredKind'',
      GetInputPorts = [Port 0, Port 1, Port 2], GetOutputPorts = [], GetDependentNodes = []\<rparr>"

definition literalNode :: DataNode where
  "literalNode = \<lparr>Type = Literal\<rparr>"

definition otherDataNode :: DataNode where
  "otherDataNode = \<lparr>Type = OtherDataNodeType 0\<rparr>"

text \<open>A freshly constructed driver.\<close>

definition driver0 :: "nat Compiler" where
  "driver0 = new_Compiler"

section \<open>The specification's reading of input nodes\<close>

text \<open>
  The specification's \<open>collectInputNodes\<close>, in its words: the predicate is "the node's kind
  is a registered input kind", decided by registry lookup of the kind identifier.
\<close>

definition spec_registeredInputKind :: "'t Compiler \<Rightarrow> 't Node \<Rightarrow> bool" where
  "spec_registeredInputKind c node = (GetNodeType c node = Inr input)"

definition spec_collectInputNodes :: "'t Compiler \<Rightarrow> 't Model \<Rightarrow> 't Node list" where
  "spec_collectInputNodes c model = filter (spec_registeredInputKind c) (visitSequence model)"

section \<open>Graph analysis: collected nodes\<close>

lemma fold_push_back:
  "fold (\<lambda>node matches. if predicate node then matches @ [node] else matches) nodes acc
     = acc @ filter predicate nodes"
  by (induction nodes arbitrary: acc) simp_all

lemma CollectNodes_filter:
  "CollectNodes model predicate = filter predicate (visitSequence model)"
  by (simp add: CollectNodes_def Visit_def fold_push_back)

text \<open>
  Claim C1. For every model and every node \<open>N\<close> of that model (a node its visitation
  yields), \<open>N\<close> is in the sequence returned by \<^verbatim>\<open>CollectOutputNodes\<close> if and only if
  \<open>N\<close> has zero dependents, and \<^verbatim>\<open>IsLeafNode\<close> is exactly that test.
\<close>

theorem CollectOutputNodes_iff_no_dependents:
  assumes "node \<in> set (visitSequence model)"
  shows "(node \<in> set (CollectOutputNodes model) \<longleftrightarrow> length (GetDependentNodes node) = 0)
       \<and> (IsLeafNode node \<longleftrightarrow> length (GetDependentNodes node) = 0)"
  using assms by (simp add: CollectOutputNodes_def CollectNodes_filter IsLeafNode_def)

theorem CollectOutputNodes_iff_no_dependents_witness:
  "nodeC \<in> set (visitSequence scenario)
   \<and> nodeC \<in> set (CollectOutputNodes scenario) \<and> length (GetDependentNodes nodeC) = 0
   \<and> nodeA \<in> set (visitSequence scenario)
   \<and> nodeA \<notin> set (CollectOutputNodes scenario) \<and> length (GetDependentNodes nodeA) \<noteq> 0"
proof -
  have inC: "nodeC \<in> set (visitSequence scenario)" by (simp add: scenario_def)
  have inA: "nodeA \<in> set (visitSequence scenario)" by (simp add: scenario_def)
  have lC: "length (GetDependentNodes nodeC) = 0" by (simp add: nodeC_def)
  have lA: "length (GetDependentNodes nodeA) \<noteq> 0" by (simp add: nodeA_def)
  show ?thesis
    using CollectOutputNodes_iff_no_dependents [OF inC]
      CollectOutputNodes_iff_no_dependents [OF inA] inC inA lC lA
    by simp
qed

text \<open>
  Claim C2 as stated does not hold of the code.
  The specification's \<open>collectInputNodes\<close> and the code's \<^verbatim>\<open>CollectInputNodes\<close> differ on
  \<open>twoSources\<close>: the code keeps the node whose class is \<^verbatim>\<open>InputNode<int>\<close>, although its
  kind identifier is not registered, and drops the node whose kind identifier \<open>Input\<close> is
  registered as an input kind.
\<close>

theorem CollectInputNodes_not_by_registry:
  "CollectInputNodes twoSources = [typedInputNode]
   \<and> spec_collectInputNodes driver0 twoSources = [namedInputNode]
   \<and> CollectInputNodes twoSources \<noteq> spec_collectInputNodes driver0 twoSources"
  by (simp add: CollectInputNodes_def CollectNodes_filter spec_collectInputNodes_def
      spec_registeredInputKind_def GetNodeType_def Get_def driver0_def new_Compiler_def
      InitSupportedNodeTypes_def Init_def twoSources_def findNodes_def
      typedInputNode_def namedInputNode_def)

text \<open>
  Claim C2, amended. For every model, \<^verbatim>\<open>CollectInputNodes\<close> returns exactly the visited
  nodes whose dynamic class is \<^verbatim>\<open>InputNode<double>\<close> or \<^verbatim>\<open>InputNode<int>\<close>, in
  visitation order. The registry plays no part: whatever the driver's registry holds,
  \<^verbatim>\<open>CompileModel\<close> stores this same sequence in \<^verbatim>\<open>_inputs\<close>.
\<close>

theorem CollectInputNodes_by_typeid:
  "CollectInputNodes model
     = filter (\<lambda>node. typeid node = InputNode_double \<or> typeid node = InputNode_int)
         (visitSequence model)
   \<and> inputs (snd (CompileModel model (c\<lparr>nodeTypes := registry\<rparr>))) = CollectInputNodes model"
proof -
  have "findNodes = (\<lambda>node::'a Node. typeid node = InputNode_double \<or> typeid node = InputNode_int)"
    by (rule ext) (simp add: findNodes_def)
  then show ?thesis
    by (simp add: CollectInputNodes_def CollectNodes_filter CompileModel_def
        BeginMain_def EndMain_def Let_def)
qed

section \<open>Compiling a single node\<close>

text \<open>
  Claim C3. For every node passed to \<^verbatim>\<open>CompileNode\<close> whose \<^verbatim>\<open>Type()\<close> is not
  \<^verbatim>\<open>Literal\<close>, the call throws \<^verbatim>\<open>notSupported\<close> (the specification's
  \<open>UnsupportedNodeKind\<close>); when it is \<^verbatim>\<open>Literal\<close>, the call returns normally, having
  called \<^verbatim>\<open>BeginMain("Predict")\<close>, the literal lowering on that node, and
  \<^verbatim>\<open>EndMain\<close>, in this order.
\<close>

theorem CompileNode_literal_only:
  "(Type node \<noteq> Literal \<longrightarrow> fst (CompileNode node c) = Inl notSupported)
   \<and> (Type node = Literal \<longrightarrow>
        fst (CompileNode node c) = Inr ()
        \<and> hookCalls (snd (CompileNode node c))
            = hookCalls c @ [Call_BeginMain ''Predict'', Call_Compile_Literal node, Call_EndMain])"
  by (simp add: CompileNode_def BeginMain_def EndMain_def Compile_Literal_def
      c_PredictFunctionName_def Let_def split: DataNodeType.split)

theorem CompileNode_literal_only_witness:
  "Type otherDataNode \<noteq> Literal \<and> fst (CompileNode otherDataNode driver0) = Inl notSupported
   \<and> Type literalNode = Literal \<and> fst (CompileNode literalNode driver0) = Inr ()
   \<and> hookCalls (snd (CompileNode literalNode driver0))
        = [Call_BeginMain ''Predict'', Call_Compile_Literal literalNode, Call_EndMain]"
proof -
  have o: "Type otherDataNode \<noteq> Literal" by (simp add: otherDataNode_def)
  have l: "Type literalNode = Literal" by (simp add: literalNode_def)
  have h: "hookCalls driver0 = []"
    by (simp add: driver0_def new_Compiler_def InitSupportedNodeTypes_def)
  show ?thesis
    using CompileNode_literal_only [of otherDataNode driver0]
      CompileNode_literal_only [of literalNode driver0] o l h
    by simp
qed

section \<open>Failure and the session\<close>

text \<open>
  Claim C4 as stated does not hold of the code.
  A failing \<^verbatim>\<open>CompileNode\<close> leaves the session open: on a fresh driver, whose session is
  idle, compiling a node that is not a literal throws \<^verbatim>\<open>notSupported\<close> after
  \<^verbatim>\<open>BeginMain\<close> and before \<^verbatim>\<open>EndMain\<close>.
\<close>

theorem CompileNode_failure_leaves_session_open:
  "session driver0 = Idle
   \<and> fst (CompileNode otherDataNode driver0) = Inl notSupported
   \<and> session (snd (CompileNode otherDataNode driver0)) = InSession ''Predict''"
  by (simp add: CompileNode_def BeginMain_def otherDataNode_def driver0_def new_Compiler_def
      InitSupportedNodeTypes_def session_def c_PredictFunctionName_def Let_def)

text \<open>
  Claim C4, amended. \<^verbatim>\<open>CompileModel\<close> never throws and leaves the session closed.
  \<^verbatim>\<open>CompileNode\<close> either returns normally, on a literal node, with the session closed;
  or it throws exactly one error, \<^verbatim>\<open>notSupported\<close>, on a node that is not a literal, at
  the point of detection: after \<^verbatim>\<open>BeginMain\<close> and nothing else. Nothing closes the
  session on that path: the driver is left in the session \<open>Predict\<close>.
\<close>

theorem compilation_outcomes:
  "fst (CompileModel model c) = Inr () \<and> session (snd (CompileModel model c)) = Idle
   \<and> (fst (CompileNode node c) = Inr () \<longrightarrow>
         Type node = Literal \<and> session (snd (CompileNode node c)) = Idle)
   \<and> (fst (CompileNode node c) \<noteq> Inr () \<longrightarrow>
         Type node \<noteq> Literal \<and> fst (CompileNode node c) = Inl notSupported
         \<and> hookCalls (snd (CompileNode node c)) = hookCalls c @ [Call_BeginMain ''Predict'']
         \<and> session (snd (CompileNode node c)) = InSession ''Predict'')"
  by (simp add: CompileModel_def CompileNode_def BeginMain_def EndMain_def Compile_Literal_def
      c_PredictFunctionName_def Let_def session_def split: DataNodeType.split)

theorem compilation_outcomes_witness:
  "fst (CompileNode literalNode driver0) = Inr ()
   \<and> session (snd (CompileNode literalNode driver0)) = Idle
   \<and> fst (CompileNode otherDataNode driver0) \<noteq> Inr ()
   \<and> fst (CompileNode otherDataNode driver0) = Inl notSupported
   \<and> hookCalls (snd (CompileNode otherDataNode driver0)) = [Call_BeginMain ''Predict'']
   \<and> fst (CompileModel scenario driver0) = Inr ()
   \<and> session (snd (CompileModel scenario driver0)) = Idle"
proof -
  have l: "fst (CompileNode literalNode driver0) = Inr ()"
    by (simp add: CompileNode_def literalNode_def Let_def)
  have o: "fst (CompileNode otherDataNode driver0) \<noteq> Inr ()"
    by (simp add: CompileNode_def otherDataNode_def Let_def)
  have h: "hookCalls driver0 = []"
    by (simp add: driver0_def new_Compiler_def InitSupportedNodeTypes_def)
  show ?thesis
    using compilation_outcomes [of scenario driver0 literalNode]
      compilation_outcomes [of scenario driver0 otherDataNode] l o h
    by simp
qed

section \<open>Port type verification\<close>

lemma VerifyInputType_loop_find:
  "VerifyInputType_loop ports ty
     = (case find (\<lambda>port. GetType port \<noteq> ty) ports of
          None \<Rightarrow> Inr () | Some port \<Rightarrow> Inl inputPortTypeNotSupported)"
  by (induction ports) simp_all

lemma VerifyOutputType_loop_find:
  "VerifyOutputType_loop ports ty
     = (case find (\<lambda>port. GetType port \<noteq> ty) ports of
          None \<Rightarrow> Inr () | Some port \<Rightarrow> Inl outputPortTypeNotSupported)"
  by (induction ports) simp_all

lemma VerifyInputType_loop_iff:
  "VerifyInputType_loop ports ty
     = (if \<exists>port \<in> set ports. GetType port \<noteq> ty then Inl inputPortTypeNotSupported
        else Inr ())"
  by (induction ports) auto

lemma VerifyOutputType_loop_iff:
  "VerifyOutputType_loop ports ty
     = (if \<exists>port \<in> set ports. GetType port \<noteq> ty then Inl outputPortTypeNotSupported
        else Inr ())"
  by (induction ports) auto

text \<open>
  Claim C5. For every node and every expected type \<open>ty\<close>, \<^verbatim>\<open>VerifyInputType\<close> fails if
  and only if at least one input port of the node has a type different from \<open>ty\<close>. The
  outcome is decided by the first such port in port order (\<open>find\<close> returns it): when there
  is one the call throws the port type error, \<^verbatim>\<open>inputPortTypeNotSupported\<close>, and when
  there is none, in particular when the node has no input port, it returns normally.
  The same holds for \<^verbatim>\<open>VerifyOutputType\<close> over the output ports, with the error
  \<^verbatim>\<open>outputPortTypeNotSupported\<close>. The specification calls both errors
  \<open>PortTypeMismatch\<close>.
\<close>

theorem Verify_port_types:
  "(VerifyInputType node ty \<noteq> Inr ()
      \<longleftrightarrow> (\<exists>port \<in> set (GetInputPorts node). GetType port \<noteq> ty))
   \<and> VerifyInputType node ty
        = (case find (\<lambda>port. GetType port \<noteq> ty) (GetInputPorts node) of
             None \<Rightarrow> Inr () | Some port \<Rightarrow> Inl inputPortTypeNotSupported)
   \<and> (GetInputPorts node = [] \<longrightarrow> VerifyInputType node ty = Inr ())
   \<and> (VerifyOutputType node ty \<noteq> Inr ()
      \<longleftrightarrow> (\<exists>port \<in> set (GetOutputPorts node). GetType port \<noteq> ty))
   \<and> VerifyOutputType node ty
        = (case find (\<lambda>port. GetType port \<noteq> ty) (GetOutputPorts node) of
             None \<Rightarrow> Inr () | Some port \<Rightarrow> Inl outputPortTypeNotSupported)
   \<and> (GetOutputPorts node = [] \<longrightarrow> VerifyOutputType node ty = Inr ())"
proof -
  have i1: "VerifyInputType node ty \<noteq> Inr ()
      \<longleftrightarrow> (\<exists>port \<in> set (GetInputPorts node). GetType port \<noteq> ty)"
    by (simp add: VerifyInputType_def VerifyInputType_loop_iff)
  have i2: "VerifyInputType node ty
        = (case find (\<lambda>port. GetType port \<noteq> ty) (GetInputPorts node) of
             None \<Rightarrow> Inr () | Some port \<Rightarrow> Inl inputPortTypeNotSupported)"
    by (simp add: VerifyInputType_def VerifyInputType_loop_find)
  have i3: "GetInputPorts node = [] \<longrightarrow> VerifyInputType node ty = Inr ()"
    by (simp add: VerifyInputType_def)
  have o1: "VerifyOutputType node ty \<noteq> Inr ()
      \<longleftrightarrow> (\<exists>port \<in> set (GetOutputPorts node). GetType port \<noteq> ty)"
    by (simp add: VerifyOutputType_def VerifyOutputType_loop_iff)
  have o2: "VerifyOutputType node ty
        = (case find (\<lambda>port. GetType port \<noteq> ty) (GetOutputPorts node) of
             None \<Rightarrow> Inr () | Some port \<Rightarrow> Inl outputPortTypeNotSupported)"
    by (simp add: VerifyOutputType_def VerifyOutputType_loop_find)
  have o3: "GetOutputPorts node = [] \<longrightarrow> VerifyOutputType node ty = Inr ()"
    by (simp add: VerifyOutputType_def)
  from i1 i2 i3 o1 o2 o3 show ?thesis by blast
qed

theorem Verify_port_types_witness:
  "GetInputPorts nodeA = [] \<and> VerifyInputType nodeA 0 = Inr ()
   \<and> VerifyInputType nodeC 0 = Inr ()
   \<and> find (\<lambda>port. GetType port \<noteq> 0) (GetInputPorts mixedNode) = Some (Port 1)
   \<and> VerifyInputType mixedNode 0 = Inl inputPortTypeNotSupported
   \<and> GetOutputPorts mixedNode = [] \<and> VerifyOutputType mixedNode 0 = Inr ()
   \<and> VerifyOutputType nodeC 1 = Inl outputPortTypeNotSupported"
proof -
  have a: "GetInputPorts nodeA = []" by (simp add: nodeA_def)
  have m: "GetOutputPorts mixedNode = []" by (simp add: mixedNode_def)
  have f: "find (\<lambda>port. GetType port \<noteq> 0) (GetInputPorts mixedNode) = Some (Port 1)"
    by (simp add: mixedNode_def)
  have c: "find (\<lambda>port. GetType port \<noteq> 0) (GetInputPorts nodeC) = None"
    by (simp add: nodeC_def)
  have d: "find (\<lambda>port. GetType port \<noteq> 1) (GetOutputPorts nodeC) = Some (Port 0)"
    by (simp add: nodeC_def)
  show ?thesis
    using Verify_port_types [of nodeA 0] Verify_port_types [of mixedNode 0]
      Verify_port_types [of nodeC 0] Verify_port_types [of nodeC 1] a m f c d
    by simp
qed

section \<open>Persistent identifiers\<close>

lemma AllocGlobal_times_Suc:
  "AllocGlobal_times (Suc n) c
     = ((globalVars c + 1) # fst (AllocGlobal_times n (c\<lparr>globalVars := globalVars c + 1\<rparr>)),
        snd (AllocGlobal_times n (c\<lparr>globalVars := globalVars c + 1\<rparr>)))"
  by (simp add: AllocGlobal_def Let_def case_prod_beta)

lemma AllocGlobal_times_length: "length (fst (AllocGlobal_times n c)) = n"
proof (induction n arbitrary: c)
  case 0
  then show ?case by simp
next
  case (Suc n)
  from Suc [of "c\<lparr>globalVars := globalVars c + 1\<rparr>"]
  show ?case by (simp add: AllocGlobal_times_Suc del: AllocGlobal_times.simps)
qed

text \<open>The \<open>i\<close>-th call (counting from 0) returns the counter's start plus \<open>i + 1\<close>, in
  64-bit arithmetic.\<close>

lemma AllocGlobal_times_nth:
  "i < n \<Longrightarrow> fst (AllocGlobal_times n c) ! i = globalVars c + of_nat (Suc i)"
proof (induction n arbitrary: c i)
  case 0
  then show ?case by simp
next
  case (Suc n)
  show ?case
  proof (cases i)
    case 0
    then show ?thesis by (simp add: AllocGlobal_times_Suc del: AllocGlobal_times.simps)
  next
    case (Suc j)
    with Suc.prems have "j < n" by simp
    from Suc.IH [OF this, of "c\<lparr>globalVars := globalVars c + 1\<rparr>"] Suc
    show ?thesis by (simp add: AllocGlobal_times_Suc del: AllocGlobal_times.simps)
  qed
qed

lemma globalVars_new: "globalVars (new_Compiler :: 't Compiler) = 0"
  by (simp add: new_Compiler_def InitSupportedNodeTypes_def)

lemma unat_id64: "k < 2 ^ 64 \<Longrightarrow> unat (of_nat k :: 64 word) = k"
  by (simp add: unat_of_nat)

text \<open>
  Claim C6 as stated, for every number of calls, does not hold of the code.
  The counter is a \<^verbatim>\<open>uint64_t\<close>: the call number \<open>2\<^sup>6\<^sup>4\<close> on a fresh driver returns 0,
  below every identifier returned before it, and the next call returns 1 again, the
  identifier of the first call.
\<close>

theorem AllocGlobal_wraps_around:
  "fst (AllocGlobal_times (2 ^ 64) driver0) ! 0 = 1
   \<and> fst (AllocGlobal_times (2 ^ 64) driver0) ! (2 ^ 64 - 1) = 0
   \<and> \<not> sorted_wrt (<) (fst (AllocGlobal_times (2 ^ 64) driver0))
   \<and> fst (AllocGlobal_times (2 ^ 64 + 1) driver0) ! (2 ^ 64) = 1
   \<and> \<not> distinct (fst (AllocGlobal_times (2 ^ 64 + 1) driver0))"
proof -
  let ?a = "fst (AllocGlobal_times (2 ^ 64) driver0)"
  let ?b = "fst (AllocGlobal_times (2 ^ 64 + 1) driver0)"
  have g: "globalVars driver0 = 0" by (simp add: driver0_def globalVars_new)
  have z: "(2 ^ 64 :: 64 word) = 0" by simp
  have a0: "?a ! 0 = 1"
    using AllocGlobal_times_nth [of 0 "2 ^ 64" driver0] g by simp
  have "?a ! (2 ^ 64 - 1) = of_nat (Suc (2 ^ 64 - 1))"
    using AllocGlobal_times_nth [of "2 ^ 64 - 1" "2 ^ 64" driver0] g by simp
  also have "Suc (2 ^ 64 - 1) = (2 ^ 64 :: nat)" by simp
  finally have al: "?a ! (2 ^ 64 - 1) = 0" using z by simp
  have ns: "\<not> sorted_wrt (<) ?a"
  proof
    assume "sorted_wrt (<) ?a"
    moreover have "(0::nat) < 2 ^ 64 - 1" by simp
    moreover have "(2 ^ 64 - 1 :: nat) < length ?a" by (simp add: AllocGlobal_times_length)
    ultimately have "?a ! 0 < ?a ! (2 ^ 64 - 1)"
      by (simp only: sorted_wrt_iff_nth_less)
    with a0 al show False by simp
  qed
  have "?b ! (2 ^ 64) = of_nat (Suc (2 ^ 64))"
    using AllocGlobal_times_nth [of "2 ^ 64" "2 ^ 64 + 1" driver0] g by simp
  then have bl: "?b ! (2 ^ 64) = 1" using z by simp
  have b0: "?b ! 0 = 1"
    using AllocGlobal_times_nth [of 0 "2 ^ 64 + 1" driver0] g by simp
  have nd: "\<not> distinct ?b"
  proof
    assume d: "distinct ?b"
    have l0: "(0::nat) < length ?b" and l1: "(2 ^ 64 :: nat) < length ?b"
      by (simp_all add: AllocGlobal_times_length)
    have "(?b ! 0 = ?b ! (2 ^ 64)) = ((0::nat) = 2 ^ 64)"
      by (rule nth_eq_iff_index_eq [OF d l0 l1])
    with b0 bl show False by simp
  qed
  from a0 al ns bl nd show ?thesis by blast
qed

text \<open>
  Claim C6, amended. For every \<open>N\<close> with \<open>1 \<le> N < 2\<^sup>6\<^sup>4\<close>, calling \<^verbatim>\<open>AllocGlobal\<close> \<open>N\<close>
  times on a fresh driver yields \<open>N\<close> identifiers, the first one 1 and the \<open>i\<close>-th one
  \<open>i\<close>, strictly increasing in call order and pairwise distinct.
\<close>

theorem AllocGlobal_fresh_increasing:
  assumes "1 \<le> N" and "N < 2 ^ 64"
  shows "length (fst (AllocGlobal_times N (new_Compiler :: 't Compiler))) = N
       \<and> fst (AllocGlobal_times N (new_Compiler :: 't Compiler)) ! 0 = 1
       \<and> (\<forall>i < N. unat (fst (AllocGlobal_times N (new_Compiler :: 't Compiler)) ! i) = Suc i)
       \<and> sorted_wrt (<) (fst (AllocGlobal_times N (new_Compiler :: 't Compiler)))
       \<and> distinct (fst (AllocGlobal_times N (new_Compiler :: 't Compiler)))"
proof -
  let ?ids = "fst (AllocGlobal_times N (new_Compiler :: 't Compiler))"
  have len: "length ?ids = N" by (rule AllocGlobal_times_length)
  have nth: "?ids ! i = of_nat (Suc i)" if "i < N" for i
    using AllocGlobal_times_nth [OF that, of "new_Compiler :: 't Compiler"]
    by (simp add: globalVars_new)
  have un: "unat (?ids ! i) = Suc i" if "i < N" for i
  proof -
    from that assms(2) have "Suc i < 2 ^ 64" by simp
    then have "unat (of_nat (Suc i) :: 64 word) = Suc i" by (rule unat_id64)
    with nth [OF that] show ?thesis by simp
  qed
  have first: "?ids ! 0 = 1" using nth [of 0] assms(1) by simp
  have inc: "sorted_wrt (<) ?ids"
    unfolding sorted_wrt_iff_nth_less
  proof (intro allI impI)
    fix i j assume "i < j" and "j < length ?ids"
    then have "i < N" "j < N" using len by simp_all
    then have "unat (?ids ! i) < unat (?ids ! j)" using un \<open>i < j\<close> by simp
    then show "?ids ! i < ?ids ! j" by (simp add: word_less_nat_alt)
  qed
  have dist: "distinct ?ids" using inc by (simp add: strict_sorted_iff)
  from len first un inc dist show ?thesis by blast
qed

theorem AllocGlobal_fresh_increasing_witness:
  "(1::nat) \<le> 3 \<and> (3::nat) < 2 ^ 64
   \<and> fst (AllocGlobal_times 3 driver0) = [1, 2, 3]
   \<and> sorted_wrt (<) (fst (AllocGlobal_times 3 driver0))
   \<and> distinct (fst (AllocGlobal_times 3 driver0))"
proof -
  have a: "(1::nat) \<le> 3" by simp
  have b: "(3::nat) < 2 ^ 64" by simp
  have e: "fst (AllocGlobal_times 3 driver0) = [1, 2, 3]"
    by (simp add: numeral_3_eq_3 AllocGlobal_def Let_def driver0_def globalVars_new)
  show ?thesis
    using AllocGlobal_fresh_increasing [OF a b, where 't = nat] a b e
    by (simp add: driver0_def)
qed

section \<open>The node kind registry\<close>

lemma Get_absent:
  "kindId \<notin> fst ` set registry \<Longrightarrow> Get registry kindId = Inl notSupported"
proof -
  assume "kindId \<notin> fst ` set registry"
  then have "map_of registry kindId = None" by (simp add: map_of_eq_None_iff)
  then show ?thesis by (simp add: Get_def)
qed

text \<open>
  Claim C7. On a freshly constructed driver, \<^verbatim>\<open>GetNodeType\<close> of a node that reports the
  kind identifier \<open>Input\<close>, \<open>ConstantNode\<close> or \<open>BinaryOperationNode\<close> returns \<open>input\<close>,
  \<open>constant\<close> or \<open>binaryOp\<close> respectively; on the identifier \<open>UnregisteredKind\<close>, and on
  any driver for any identifier that is not a key of its registry, it fails with
  \<^verbatim>\<open>notSupported\<close> (the specification's \<open>UnsupportedNodeKind\<close>).
\<close>

theorem GetNodeType_builtin_kinds:
  "(GetRuntimeTypeName node = ''Input'' \<longrightarrow> GetNodeType new_Compiler node = Inr input)
   \<and> (GetRuntimeTypeName node = ''ConstantNode'' \<longrightarrow>
         GetNodeType new_Compiler node = Inr constant')
   \<and> (GetRuntimeTypeName node = ''BinaryOperationNode'' \<longrightarrow>
         GetNodeType new_Compiler node = Inr binaryOp)
   \<and> (GetRuntimeTypeName node = ''UnregisteredKind'' \<longrightarrow>
         GetNodeType new_Compiler node = Inl notSupported)
   \<and> (GetRuntimeTypeName node \<notin> fst ` set (nodeTypes c) \<longrightarrow>
         GetNodeType c node = Inl notSupported)"
  by (simp add: GetNodeType_def Get_absent)
    (simp add: Get_def new_Compiler_def InitSupportedNodeTypes_def Init_def)

theorem GetNodeType_builtin_kinds_witness:
  "GetNodeType driver0 nodeA = Inr input
   \<and> GetNodeType driver0 nodeB = Inr constant'
   \<and> GetNodeType driver0 nodeC = Inr binaryOp
   \<and> GetRuntimeTypeName mixedNode = ''UnregisteredKind''
   \<and> GetRuntimeTypeName mixedNode \<notin> fst ` set (nodeTypes driver0)
   \<and> GetNodeType driver0 mixedNode = Inl notSupported"
proof -
  have a: "GetRuntimeTypeName nodeA = ''Input''" by (simp add: nodeA_def)
  have b: "GetRuntimeTypeName nodeB = ''ConstantNode''" by (simp add: nodeB_def)
  have c: "GetRuntimeTypeName nodeC = ''BinaryOperationNode''" by (simp add: nodeC_def)
  have m: "GetRuntimeTypeName mixedNode = ''UnregisteredKind''" by (simp add: mixedNode_def)
  have r: "GetRuntimeTypeName mixedNode \<notin> fst ` set (nodeTypes driver0)"
    by (simp add: mixedNode_def driver0_def new_Compiler_def InitSupportedNodeTypes_def Init_def)
  show ?thesis
    using GetNodeType_builtin_kinds [of nodeA driver0] GetNodeType_builtin_kinds [of nodeB driver0]
      GetNodeType_builtin_kinds [of nodeC driver0] GetNodeType_builtin_kinds [of mixedNode driver0]
      a b c m r
    by (simp add: driver0_def)
qed

section \<open>Compiling a model\<close>

text \<open>
  Claim C8. For every model and every driver, \<^verbatim>\<open>CompileModel\<close> returns normally, having
  stored the input nodes and the output nodes that \<^verbatim>\<open>ModelEx\<close> collects and having
  called \<^verbatim>\<open>BeginMain("Predict")\<close> and then \<^verbatim>\<open>EndMain\<close>, whatever the collected sets are;
  the session is closed afterwards. On the model with zero nodes it returns normally with
  empty inputs and outputs, and the session is still opened and closed.
\<close>

theorem CompileModel_brackets_session:
  "CompileModel model c
     = (Inr (), c\<lparr>inputs := CollectInputNodes model, outputs := CollectOutputNodes model,
                  hookCalls := hookCalls c @ [Call_BeginMain ''Predict'', Call_EndMain]\<rparr>)
   \<and> session (snd (CompileModel model c)) = Idle
   \<and> fst (CompileModel (Model []) c) = Inr ()
   \<and> inputs (snd (CompileModel (Model []) c)) = []
   \<and> outputs (snd (CompileModel (Model []) c)) = []
   \<and> hookCalls (snd (CompileModel (Model []) c))
        = hookCalls c @ [Call_BeginMain ''Predict'', Call_EndMain]"
  by (simp add: CompileModel_def BeginMain_def EndMain_def c_PredictFunctionName_def Let_def
      session_def CollectInputNodes_def CollectOutputNodes_def CollectNodes_filter)

section \<open>Reset\<close>

text \<open>
  Claim C9 as stated does not hold of the code: \<^verbatim>\<open>Reset\<close>, whose body is empty,
  clears nothing. After \<^verbatim>\<open>CompileModel\<close> on the scenario, a fresh driver
  holds the resolved input and output nodes and still holds them after \<^verbatim>\<open>Reset\<close>; after
  a failed \<^verbatim>\<open>CompileNode\<close> the session is open and \<^verbatim>\<open>Reset\<close> leaves it open. A second
  compilation after \<^verbatim>\<open>Reset\<close> does not start from the state the first one started from.
\<close>

theorem Reset_keeps_session_state:
  "inputs driver0 = []
   \<and> inputs (Reset (snd (CompileModel scenario driver0))) = [nodeA]
   \<and> outputs driver0 = []
   \<and> outputs (Reset (snd (CompileModel scenario driver0))) = [nodeC]
   \<and> session driver0 = Idle
   \<and> session (Reset (snd (CompileNode otherDataNode driver0))) = InSession ''Predict''"
  by (simp add: Reset_def CompileModel_def CompileNode_def BeginMain_def EndMain_def Let_def
      CollectInputNodes_def CollectOutputNodes_def CollectNodes_filter scenario_def
      findNodes_def IsLeafNode_def nodeA_def nodeB_def nodeC_def otherDataNode_def
      driver0_def new_Compiler_def InitSupportedNodeTypes_def session_def
      c_PredictFunctionName_def)

text \<open>
  Claim C9, amended. \<^verbatim>\<open>Reset\<close> leaves the registry unchanged, so every lookup gives the
  same result after it as before; and it leaves every other part of the driver unchanged
  as well: the driver after \<^verbatim>\<open>Reset\<close> is the driver before it.
\<close>

theorem Reset_changes_nothing:
  "nodeTypes (Reset c) = nodeTypes c
   \<and> GetNodeType (Reset c) node = GetNodeType c node
   \<and> Reset c = c"
  by (simp add: Reset_def)

section \<open>The data type of a node\<close>

text \<open>
  Claim C10. \<^verbatim>\<open>GetNodeDataType\<close> reads the type of the node's first output port by the
  index 0, without a check. It is defined exactly when the node has at least one output
  port, and then it is the type of that port; for a node with zero output ports the index
  is out of bounds.
\<close>

theorem GetNodeDataType_needs_output_port:
  "(GetNodeDataType node = None \<longleftrightarrow> length (GetOutputPorts node) = 0)
   \<and> (1 \<le> length (GetOutputPorts node) \<longrightarrow>
        GetNodeDataType node = Some (GetType (GetOutputPorts node ! 0)))"
  by (simp add: GetNodeDataType_def vector_at_def)

theorem GetNodeDataType_needs_output_port_witness:
  "1 \<le> length (GetOutputPorts nodeA) \<and> GetNodeDataType nodeA = Some 0
   \<and> length (GetOutputPorts mixedNode) = 0 \<and> GetNodeDataType mixedNode = None"
proof -
  have a: "GetOutputPorts nodeA = [Port 0]" by (simp add: nodeA_def)
  have m: "GetOutputPorts mixedNode = []" by (simp add: mixedNode_def)
  show ?thesis
    using GetNodeDataType_needs_output_port [of nodeA]
      GetNodeDataType_needs_output_port [of mixedNode] a m
    by simp
qed

end
